theory Spec2Isabelle
  imports Main "HOL-Library.Word"
begin

section \<open>The copy-project tool of code-sandbox-mcp\<close>

text \<open>
  The source file \<^verbatim>\<open>tools/copy-project.go\<close> exists in two revisions, which the
  development keeps apart:
  \<^item> the first revision (source lines 1 to 275) has a flag \<^verbatim>\<open>copyToHomeDir\<close>: with no
    destination the contents of the source directory are copied straight into
    \<^verbatim>\<open>/app\<close>; its functions keep their names (\<open>CopyProject\<close>, \<open>createTarArchive\<close>,
    \<open>copyToContainer\<close>);
  \<^item> the second revision (source lines 276 to 493) always nests the archive under the
    base name of the source directory and creates the target with \<^verbatim>\<open>mkdir -p\<close> first;
    its functions carry the suffix \<open>2\<close>.
  \<^verbatim>\<open>executeCommand\<close> is the same text in both revisions and is modelled once.

  Go strings are byte sequences: they are \<^typ>\<open>string\<close> here. A Go \<^verbatim>\<open>error\<close> is
  modelled by its message, so a fallible call returns \<open>string + 'a\<close> (\<open>Inl\<close> the
  message) or \<open>string option\<close> (\<open>None\<close> for \<^verbatim>\<open>nil\<close>).
\<close>

type_synonym bytes = "8 word list"

subsection \<open>The Go library: \<^verbatim>\<open>strings\<close> and \<^verbatim>\<open>path/filepath\<close> on Unix\<close>

text \<open>
  The library functions the tool calls are not part of the repository. They are modelled
  from the Go standard library for a Unix host (separator \<^verbatim>\<open>/\<close>, no volume names).
\<close>

definition sep :: char where
  "sep = CHR ''/''"

text \<open>\<^verbatim>\<open>strings.HasPrefix(s, "/")\<close>.\<close>

definition strings_HasPrefix_slash :: "string \<Rightarrow> bool" where
  "strings_HasPrefix_slash s = (take 1 s = [sep])"

text \<open>\<^verbatim>\<open>strings.Split(s, "/")\<close> and \<^verbatim>\<open>strings.Join(elems, "/")\<close>.\<close>

fun split_path :: "string \<Rightarrow> string list" where
  "split_path [] = [[]]"
| "split_path (c # cs) =
     (if c = sep then [] # split_path cs
      else (case split_path cs of [] \<Rightarrow> [[c]] | x # xs \<Rightarrow> (c # x) # xs))"

fun join_path :: "string list \<Rightarrow> string" where
  "join_path [] = []"
| "join_path [x] = x"
| "join_path (x # y # ys) = x @ sep # join_path (y # ys)"

text \<open>
  \<^verbatim>\<open>filepath.Clean\<close> works through the elements of the path from left to right and keeps
  the elements of its output buffer; \<open>stack\<close> is that buffer, last element first. An
  empty element and \<^verbatim>\<open>.\<close> are dropped. On \<^verbatim>\<open>..\<close> the last element is removed when
  there is one that is not itself \<^verbatim>\<open>..\<close> (the buffer is past Go's \<^verbatim>\<open>dotdot\<close> mark);
  otherwise \<^verbatim>\<open>..\<close> is kept on a relative path and dropped on a rooted one.
\<close>

fun clean_elems :: "bool \<Rightarrow> string list \<Rightarrow> string list \<Rightarrow> string list" where
  "clean_elems rooted stack [] = rev stack"
| "clean_elems rooted stack (e # es) =
     (if e = [] \<or> e = ''.'' then clean_elems rooted stack es
      else if e = ''..'' then
        (case stack of
           e1 # below \<Rightarrow>
             if e1 \<noteq> ''..'' then clean_elems rooted below es
             else clean_elems rooted (''..'' # stack) es
         | [] \<Rightarrow>
             if rooted then clean_elems rooted [] es
             else clean_elems rooted [''..''] es)
      else clean_elems rooted (e # stack) es)"

definition filepath_Clean :: "string \<Rightarrow> string" where
  "filepath_Clean path =
     (if path = [] then ''.''
      else
        let rooted = (hd path = sep);
            out = join_path (clean_elems rooted [] (split_path path))
        in if rooted then sep # out
           else if out = [] then ''.'' else out)"

text \<open>
  \<^verbatim>\<open>filepath.Join(a, b)\<close>: the first non-empty element onwards, joined by the separator
  and cleaned; the empty string when both are empty.
\<close>

definition filepath_Join :: "string \<Rightarrow> string \<Rightarrow> string" where
  "filepath_Join a b =
     (if a \<noteq> [] then filepath_Clean (a @ sep # b)
      else if b \<noteq> [] then filepath_Clean b
      else [])"

text \<open>
  \<^verbatim>\<open>filepath.Base\<close>: trailing separators are stripped, then everything up to the last
  separator; \<^verbatim>\<open>.\<close> for the empty path and \<^verbatim>\<open>/\<close> for a path of separators only.
\<close>

definition filepath_Base :: "string \<Rightarrow> string" where
  "filepath_Base path =
     (if path = [] then ''.''
      else
        let stripped = rev (dropWhile (\<lambda>c. c = sep) (rev path));
            last_elem = rev (takeWhile (\<lambda>c. c \<noteq> sep) (rev stripped))
        in if last_elem = [] then [sep] else last_elem)"

text \<open>\<^verbatim>\<open>filepath.Dir\<close>: the path up to and including its last separator, cleaned.\<close>

definition filepath_Dir :: "string \<Rightarrow> string" where
  "filepath_Dir path = filepath_Clean (rev (dropWhile (\<lambda>c. c \<noteq> sep) (rev path)))"

text \<open>
  The loop of \<^verbatim>\<open>filepath.Rel\<close> that moves both paths past their common leading
  elements. The arguments are what is left of \<^verbatim>\<open>base\<close> and \<^verbatim>\<open>targ\<close> (from \<^verbatim>\<open>b0\<close>
  and \<^verbatim>\<open>t0\<close> on). The result is the rest of base, the element of base at which the
  loop stopped (\<^verbatim>\<open>base[b0:bi]\<close>, empty when the loop ran to its end) and the rest of
  targ.
\<close>

function rel_loop :: "string \<Rightarrow> string \<Rightarrow> string \<times> string \<times> string" where
  "rel_loop base targ =
     (if base \<noteq> [] \<and> targ \<noteq> [] then
        let eb = takeWhile (\<lambda>c. c \<noteq> sep) base;
            et = takeWhile (\<lambda>c. c \<noteq> sep) targ
        in if et \<noteq> eb then (base, eb, targ)
           else rel_loop (drop (Suc (length eb)) base) (drop (Suc (length et)) targ)
      else (base, [], targ))"
  by pat_completeness auto
termination
  by (relation "measure (\<lambda>(base, targ). length base)") auto

declare rel_loop.simps [simp del]

fun dotdots :: "nat \<Rightarrow> string" where
  "dotdots 0 = ''..''"
| "dotdots (Suc n) = ''..'' @ sep # dotdots n"

definition filepath_Rel :: "string \<Rightarrow> string \<Rightarrow> string + string" where
  "filepath_Rel basepath targpath =
     (let base = filepath_Clean basepath;
          targ = filepath_Clean targpath
      in if targ = base then Inr ''.''
         else
           let base1 = (if base = ''.'' then [] else base);
               baseSlashed = (base1 \<noteq> [] \<and> hd base1 = sep);
               targSlashed = (targ \<noteq> [] \<and> hd targ = sep)
           in if baseSlashed \<noteq> targSlashed
              then Inl (''Rel: can't make '' @ targpath @ '' relative to '' @ basepath)
              else
                (case rel_loop base1 targ of
                   (brest, belem, trest) \<Rightarrow>
                     if belem = ''..''
                     then Inl (''Rel: can't make '' @ targpath @ '' relative to '' @ basepath)
                     else if brest \<noteq> []
                     then Inr (dotdots (length (filter (\<lambda>c. c = sep) brest))
                               @ (if trest \<noteq> [] then sep # trest else []))
                     else Inr trest))"

text \<open>\<^verbatim>\<open>%d\<close> of \<^verbatim>\<open>fmt\<close>: a decimal numeral.\<close>

fun show_nat :: "nat \<Rightarrow> string" where
  "show_nat n =
     (if n < 10 then [''0123456789'' ! n]
      else show_nat (n div 10) @ [''0123456789'' ! (n mod 10)])"

definition show_int :: "int \<Rightarrow> string" where
  "show_int i = (if i < 0 then CHR ''-'' # show_nat (nat (- i)) else show_nat (nat i))"

subsection \<open>The host file system and the tar writer\<close>

text \<open>
  A file system entry as \<^verbatim>\<open>os.Lstat\<close> reports it. A regular file carries whether
  \<^verbatim>\<open>os.Open\<close> may read it and its bytes; a directory carries whether its names can be
  read and its entries, in the order \<^verbatim>\<open>readDirNames\<close> returns them (sorted by name).
  The file system does not change while the tool runs, so the entry found under
  \<^verbatim>\<open>filepath.Join(path, name)\<close> is the entry listed under \<open>name\<close>.
\<close>

datatype fs_node =
    Regular bool bytes
  | Directory bool "(string \<times> fs_node) list"
  | Symlink string
  | Fifo
  | Socket

record file_info =
  fi_name :: string
  fi_node :: fs_node

fun IsDir :: "fs_node \<Rightarrow> bool" where
  "IsDir (Directory listable entries) = True"
| "IsDir node = False"

fun IsRegular :: "fs_node \<Rightarrow> bool" where
  "IsRegular (Regular readable content) = True"
| "IsRegular node = False"

datatype typeflag = TypeReg | TypeDir | TypeSymlink | TypeFifo

record tar_header =
  hName :: string
  hTypeflag :: typeflag
  hLinkname :: string
  hSize :: nat

text \<open>
  The archive is the sequence of entries written to the \<^verbatim>\<open>tar.Writer\<close>: each header
  with the bytes written after it. Modes, owners and times of the header are left out.
\<close>

record tar_entry =
  header :: tar_header
  data :: bytes

type_synonym tar_writer = "tar_entry list"

text \<open>
  \<^verbatim>\<open>tar.FileInfoHeader(fi, link)\<close>: the size is recorded for regular files only, a
  directory's name gets a trailing separator, \<open>link\<close> becomes the link name of a symbolic
  link, and a socket is refused.
\<close>

definition tar_FileInfoHeader :: "file_info option \<Rightarrow> string \<Rightarrow> string + tar_header" where
  "tar_FileInfoHeader fi link =
     (case fi of
        None \<Rightarrow> Inl ''archive/tar: FileInfo is nil''
      | Some info \<Rightarrow>
          (case fi_node info of
             Regular readable content \<Rightarrow>
               Inr \<lparr>hName = fi_name info, hTypeflag = TypeReg, hLinkname = [],
                    hSize = length content\<rparr>
           | Directory listable entries \<Rightarrow>
               Inr \<lparr>hName = fi_name info @ [sep], hTypeflag = TypeDir, hLinkname = [],
                    hSize = 0\<rparr>
           | Symlink target \<Rightarrow>
               Inr \<lparr>hName = fi_name info, hTypeflag = TypeSymlink, hLinkname = link,
                    hSize = 0\<rparr>
           | Fifo \<Rightarrow>
               Inr \<lparr>hName = fi_name info, hTypeflag = TypeFifo, hLinkname = [],
                    hSize = 0\<rparr>
           | Socket \<Rightarrow> Inl ''archive/tar: sockets not supported''))"

text \<open>
  \<^verbatim>\<open>tw.WriteHeader\<close> first flushes the entry before: it fails when that entry has
  fewer bytes than its header announced. \<^verbatim>\<open>tw.Write\<close> appends to the last entry and
  fails when the bytes exceed the announced size.
\<close>

definition tw_WriteHeader :: "tar_writer \<Rightarrow> tar_header \<Rightarrow> string + tar_writer" where
  "tw_WriteHeader tw hdr =
     (if tw \<noteq> [] \<and> length (data (last tw)) < hSize (header (last tw))
      then Inl (''archive/tar: missed writing ''
                @ show_nat (hSize (header (last tw)) - length (data (last tw))) @ '' bytes'')
      else Inr (tw @ [\<lparr>header = hdr, data = []\<rparr>]))"

definition tw_Write :: "tar_writer \<Rightarrow> bytes \<Rightarrow> string + tar_writer" where
  "tw_Write tw b =
     (if b = [] then Inr tw
      else if tw = [] then Inl ''archive/tar: write after close''
      else if hSize (header (last tw)) < length (data (last tw)) + length b
      then Inl ''archive/tar: write too long''
      else Inr (butlast tw @ [(last tw)\<lparr>data := data (last tw) @ b\<rparr>]))"

text \<open>
  \<^verbatim>\<open>os.Open(file)\<close> followed by \<^verbatim>\<open>io.Copy(tw, f)\<close>, for the entry \<open>node\<close> found at
  \<open>file\<close>.
\<close>

definition copy_file :: "string \<Rightarrow> fs_node \<Rightarrow> tar_writer \<Rightarrow> string + tar_writer" where
  "copy_file file node tw =
     (case node of
        Regular readable content \<Rightarrow>
          if readable then tw_Write tw content
          else Inl (''open '' @ file @ '': permission denied'')
      | _ \<Rightarrow> Inl (''open '' @ file @ '': not a regular file''))"

subsection \<open>\<^verbatim>\<open>filepath.Walk\<close>\<close>

text \<open>
  The walk function receives the path, the file info (absent when \<^verbatim>\<open>Lstat\<close> of the
  root failed) and the error of \<^verbatim>\<open>Lstat\<close> or of reading the directory, and threads
  the state \<open>'s\<close> (here the tar writer). The walk functions of this program never return
  \<^verbatim>\<open>SkipDir\<close> or \<^verbatim>\<open>SkipAll\<close>, so every error ends the walk.
\<close>

type_synonym 's walk_func = "string \<Rightarrow> file_info option \<Rightarrow> string option \<Rightarrow> 's \<Rightarrow> string + 's"

fun walk :: "string \<Rightarrow> fs_node \<Rightarrow> 's walk_func \<Rightarrow> 's \<Rightarrow> string + 's"
and walk_names :: "string \<Rightarrow> (string \<times> fs_node) list \<Rightarrow> 's walk_func \<Rightarrow> 's \<Rightarrow> string + 's"
where
  "walk path (Directory listable entries) walkFn s =
     (let info = \<lparr>fi_name = filepath_Base path, fi_node = Directory listable entries\<rparr>;
          err = (if listable then None else Some (''open '' @ path @ '': permission denied''))
      in case walkFn path (Some info) err s of
           Inl err1 \<Rightarrow> Inl err1
         | Inr s1 \<Rightarrow> if err \<noteq> None then Inr s1 else walk_names path entries walkFn s1)"
| "walk path (Regular readable content) walkFn s =
     walkFn path (Some \<lparr>fi_name = filepath_Base path, fi_node = Regular readable content\<rparr>) None s"
| "walk path (Symlink target) walkFn s =
     walkFn path (Some \<lparr>fi_name = filepath_Base path, fi_node = Symlink target\<rparr>) None s"
| "walk path Fifo walkFn s =
     walkFn path (Some \<lparr>fi_name = filepath_Base path, fi_node = Fifo\<rparr>) None s"
| "walk path Socket walkFn s =
     walkFn path (Some \<lparr>fi_name = filepath_Base path, fi_node = Socket\<rparr>) None s"
| "walk_names path [] walkFn s = Inr s"
| "walk_names path (entry # rest) walkFn s =
     (case walk (filepath_Join path (fst entry)) (snd entry) walkFn s of
        Inl err \<Rightarrow> Inl err
      | Inr s1 \<Rightarrow> walk_names path rest walkFn s1)"

subsection \<open>\<^verbatim>\<open>createTarArchive\<close>\<close>

text \<open>
  The function literal handed to \<^verbatim>\<open>filepath.Walk\<close> (source lines 138 to 184), with the
  variables it captures as its first arguments. Go would panic on a nil \<open>fi\<close> with a nil
  \<open>err\<close>; \<^verbatim>\<open>filepath.Walk\<close> never calls it so.
\<close>

definition archive_walkFn :: "string \<Rightarrow> string \<Rightarrow> bool \<Rightarrow> tar_writer walk_func" where
  "archive_walkFn srcPath baseDir copyContentsOnly file fi err tw =
     (case err of
        Some e \<Rightarrow> Inl e
      | None \<Rightarrow>
          (case fi of
             None \<Rightarrow> Inl ''invalid memory address or nil pointer dereference''
           | Some info \<Rightarrow>
               (case tar_FileInfoHeader fi (fi_name info) of
                  Inl e \<Rightarrow> Inl e
                | Inr header0 \<Rightarrow>
                    (case filepath_Rel srcPath file of
                       Inl e \<Rightarrow> Inl e
                     | Inr relPath \<Rightarrow>
                         if relPath = ''.'' then Inr tw
                         else
                           let header1 =
                                 (if copyContentsOnly then header0\<lparr>hName := relPath\<rparr>
                                  else header0\<lparr>hName := filepath_Join baseDir relPath\<rparr>)
                           in case tw_WriteHeader tw header1 of
                                Inl e \<Rightarrow> Inl e
                              | Inr tw1 \<Rightarrow>
                                  if IsRegular (fi_node info)
                                  then copy_file file (fi_node info) tw1
                                  else Inr tw1))))"

text \<open>
  The walk function of the second revision (source lines 356 to 397): the header name
  is always joined under the base name.
\<close>

definition archive_walkFn2 :: "string \<Rightarrow> string \<Rightarrow> tar_writer walk_func" where
  "archive_walkFn2 srcPath baseDir file fi err tw =
     (case err of
        Some e \<Rightarrow> Inl e
      | None \<Rightarrow>
          (case fi of
             None \<Rightarrow> Inl ''invalid memory address or nil pointer dereference''
           | Some info \<Rightarrow>
               (case tar_FileInfoHeader fi (fi_name info) of
                  Inl e \<Rightarrow> Inl e
                | Inr header0 \<Rightarrow>
                    (case filepath_Rel srcPath file of
                       Inl e \<Rightarrow> Inl e
                     | Inr relPath \<Rightarrow>
                         if relPath = ''.'' then Inr tw
                         else
                           let header1 = header0\<lparr>hName := filepath_Join baseDir relPath\<rparr>
                           in case tw_WriteHeader tw header1 of
                                Inl e \<Rightarrow> Inl e
                              | Inr tw1 \<Rightarrow>
                                  if IsRegular (fi_node info)
                                  then copy_file file (fi_node info) tw1
                                  else Inr tw1))))"

subsection \<open>The world outside: host calls and the container runtime\<close>

text \<open>
  What the tool asks of its environment, as answers fixed for one invocation:
  \<^item> \<open>os_Stat\<close> follows symbolic links, \<open>os_Lstat\<close> does not; both give the entry at a
    path or the error's message;
  \<^item> the Docker client calls give \<open>None\<close> (or \<open>Inr\<close>) on success and the error's message
    otherwise;
  \<^item> \<open>docker_ContainerExecAttach\<close> gives the attached output stream as the contents the
    background copy has put into the \<^verbatim>\<open>stdout\<close> buffer when the buffer is read in the
    \<open>k\<close>-th round of the polling loop (the copy is not waited for, so this is whatever
    has arrived by then);
  \<^item> \<open>docker_ContainerExecInspect execID k\<close> is the answer to the \<open>k\<close>-th inspect call:
    whether the command still runs, and its exit code.
\<close>

record world =
  os_Stat :: "string \<Rightarrow> string + fs_node"
  os_Lstat :: "string \<Rightarrow> string + fs_node"
  docker_NewClient :: "string option"
  docker_ContainerInspect :: "string \<Rightarrow> string option"
  docker_CopyToContainer :: "string \<Rightarrow> string \<Rightarrow> tar_entry list \<Rightarrow> string option"
  docker_ContainerExecCreate :: "string \<Rightarrow> string list \<Rightarrow> string + string"
  docker_ContainerExecAttach :: "string \<Rightarrow> string + (nat \<Rightarrow> string)"
  docker_ContainerExecInspect :: "string \<Rightarrow> nat \<Rightarrow> string + bool \<times> int"

text \<open>The calls that reach outside the process, in the order they are made.\<close>

datatype event =
    OsStat string
  | FilepathWalk string
  | DockerNewClient
  | DockerContainerInspect string
  | DockerContainerExecCreate string "string list"
  | DockerContainerExecAttach string
  | DockerCopyToContainer string string "tar_entry list"

fun is_docker_event :: "event \<Rightarrow> bool" where
  "is_docker_event (OsStat path) = False"
| "is_docker_event (FilepathWalk root) = False"
| "is_docker_event ev = True"

fun is_filesystem_event :: "event \<Rightarrow> bool" where
  "is_filesystem_event (OsStat path) = True"
| "is_filesystem_event (FilepathWalk root) = True"
| "is_filesystem_event ev = False"

text \<open>
  \<^verbatim>\<open>filepath.Walk(root, fn)\<close>: \<^verbatim>\<open>Lstat\<close> of the root, then the recursive walk.
\<close>

definition filepath_Walk :: "world \<Rightarrow> string \<Rightarrow> 's walk_func \<Rightarrow> 's \<Rightarrow> string + 's" where
  "filepath_Walk w root walkFn s =
     (case os_Lstat w root of
        Inl err \<Rightarrow> walkFn root None (Some err) s
      | Inr node \<Rightarrow> walk root node walkFn s)"

text \<open>
  \<^verbatim>\<open>createTarArchive\<close> (source lines 130 to 191). The deferred \<^verbatim>\<open>tw.Close()\<close> ends the
  archive after the return value is fixed; it adds no entry.
\<close>

definition createTarArchive :: "world \<Rightarrow> string \<Rightarrow> bool \<Rightarrow> string + tar_entry list" where
  "createTarArchive w srcPath0 copyContentsOnly =
     (let srcPath = filepath_Clean srcPath0;
          baseDir = filepath_Base srcPath
      in case filepath_Walk w srcPath (archive_walkFn srcPath baseDir copyContentsOnly) [] of
           Inl err \<Rightarrow> Inl err
         | Inr buf \<Rightarrow> Inr buf)"

text \<open>\<^verbatim>\<open>createTarArchive\<close> of the second revision (source lines 348 to 404).\<close>

definition createTarArchive2 :: "world \<Rightarrow> string \<Rightarrow> string + tar_entry list" where
  "createTarArchive2 w srcPath0 =
     (let srcPath = filepath_Clean srcPath0;
          baseDir = filepath_Base srcPath
      in case filepath_Walk w srcPath (archive_walkFn2 srcPath baseDir) [] of
           Inl err \<Rightarrow> Inl err
         | Inr buf \<Rightarrow> Inr buf)"

subsection \<open>\<^verbatim>\<open>executeCommand\<close> and \<^verbatim>\<open>copyToContainer\<close>\<close>

text \<open>
  The polling loop of \<^verbatim>\<open>executeCommand\<close> (source lines 255 to 272), from its \<open>k\<close>-th
  round on. \<open>stdout\<close> is the buffer the background copy fills, \<open>stderr\<close> the buffer
  declared beside it. The loop has no bound: the result is \<open>None\<close> when it never ends,
  \<open>Some None\<close> for a \<^verbatim>\<open>nil\<close> error and \<open>Some (Some msg)\<close> for an error.
\<close>

partial_function (option) poll_exec ::
  "(nat \<Rightarrow> string + bool \<times> int) \<Rightarrow> (nat \<Rightarrow> string) \<Rightarrow> string \<Rightarrow> nat \<Rightarrow> string option option"
where
  "poll_exec inspect stdout stderr k =
     (case inspect k of
        Inl err \<Rightarrow> Some (Some (''failed to inspect exec: '' @ err))
      | Inr (running, exitCode) \<Rightarrow>
          if \<not> running then
            (if exitCode \<noteq> 0 then
               (let errMsg = (if stderr = [] then stdout k else stderr)
                in Some (Some (''command exited with code '' @ show_int exitCode
                               @ '': '' @ errMsg)))
             else Some None)
          else poll_exec inspect stdout stderr (Suc k))"

declare poll_exec.simps [code]

text \<open>
  \<^verbatim>\<open>executeCommand\<close> (source lines 221 to 275 and 439 to 493). Only the background copy
  writes a buffer, and it writes \<^verbatim>\<open>stdout\<close>; \<^verbatim>\<open>stderr\<close> stays as declared, empty.
\<close>

definition executeCommand ::
  "world \<Rightarrow> string \<Rightarrow> string list \<Rightarrow> (string option \<times> event list) option" where
  "executeCommand w containerID cmd =
     (case docker_NewClient w of
        Some err \<Rightarrow> Some (Some (''failed to create Docker client: '' @ err), [DockerNewClient])
      | None \<Rightarrow>
          (case docker_ContainerExecCreate w containerID cmd of
             Inl err \<Rightarrow>
               Some (Some (''failed to create exec: '' @ err),
                     [DockerNewClient, DockerContainerExecCreate containerID cmd])
           | Inr execID \<Rightarrow>
               (case docker_ContainerExecAttach w execID of
                  Inl err \<Rightarrow>
                    Some (Some (''failed to attach to exec: '' @ err),
                          [DockerNewClient, DockerContainerExecCreate containerID cmd,
                           DockerContainerExecAttach execID])
                | Inr stdout \<Rightarrow>
                    (case poll_exec (docker_ContainerExecInspect w execID) stdout [] 0 of
                       None \<Rightarrow> None
                     | Some result \<Rightarrow>
                         Some (result,
                               [DockerNewClient, DockerContainerExecCreate containerID cmd,
                                DockerContainerExecAttach execID])))))"

text \<open>\<^verbatim>\<open>copyToContainer\<close> of the first revision (source lines 194 to 218).\<close>

definition copyToContainer ::
  "world \<Rightarrow> string \<Rightarrow> string \<Rightarrow> tar_entry list \<Rightarrow> string option \<times> event list" where
  "copyToContainer w containerID destPath tarArchive =
     (case docker_NewClient w of
        Some err \<Rightarrow> (Some (''failed to create Docker client: '' @ err), [DockerNewClient])
      | None \<Rightarrow>
          (case docker_ContainerInspect w containerID of
             Some err \<Rightarrow>
               (Some (''failed to inspect container: '' @ err),
                [DockerNewClient, DockerContainerInspect containerID])
           | None \<Rightarrow>
               (case docker_CopyToContainer w containerID destPath tarArchive of
                  Some err \<Rightarrow>
                    (Some (''failed to copy to container: '' @ err),
                     [DockerNewClient, DockerContainerInspect containerID,
                      DockerCopyToContainer containerID destPath tarArchive])
                | None \<Rightarrow>
                    (None,
                     [DockerNewClient, DockerContainerInspect containerID,
                      DockerCopyToContainer containerID destPath tarArchive]))))"

text \<open>
  \<^verbatim>\<open>copyToContainer\<close> of the second revision (source lines 407 to 436): the destination
  is first created with \<^verbatim>\<open>mkdir -p\<close> through \<^verbatim>\<open>executeCommand\<close>, so the function
  returns only if that command's polling loop ends.
\<close>

definition copyToContainer2 ::
  "world \<Rightarrow> string \<Rightarrow> string \<Rightarrow> tar_entry list \<Rightarrow> (string option \<times> event list) option" where
  "copyToContainer2 w containerID destPath tarArchive =
     (case docker_NewClient w of
        Some err \<Rightarrow> Some (Some (''failed to create Docker client: '' @ err), [DockerNewClient])
      | None \<Rightarrow>
          (case docker_ContainerInspect w containerID of
             Some err \<Rightarrow>
               Some (Some (''failed to inspect container: '' @ err),
                     [DockerNewClient, DockerContainerInspect containerID])
           | None \<Rightarrow>
               (case executeCommand w containerID [''mkdir'', ''-p'', destPath] of
                  None \<Rightarrow> None
                | Some (Some err, evs) \<Rightarrow>
                    Some (Some (''failed to create destination directory: '' @ err),
                          [DockerNewClient, DockerContainerInspect containerID] @ evs)
                | Some (None, evs) \<Rightarrow>
                    (case docker_CopyToContainer w containerID destPath tarArchive of
                       Some err \<Rightarrow>
                         Some (Some (''failed to copy to container: '' @ err),
                               [DockerNewClient, DockerContainerInspect containerID] @ evs
                               @ [DockerCopyToContainer containerID destPath tarArchive])
                     | None \<Rightarrow>
                         Some (None,
                               [DockerNewClient, DockerContainerInspect containerID] @ evs
                               @ [DockerCopyToContainer containerID destPath tarArchive])))))"

subsection \<open>\<^verbatim>\<open>CopyProject\<close>\<close>

text \<open>
  The arguments of a tool request are a map from names to JSON values; the assertion
  \<^verbatim>\<open>Arguments[key].(string)\<close> gives the string and \<^verbatim>\<open>true\<close>, or the empty string
  and \<^verbatim>\<open>false\<close> when the key is missing or holds another kind of value.
\<close>

datatype json_value = JString string | JNumber int | JBool bool | JNull

type_synonym arguments = "string \<rightharpoonup> json_value"

definition string_arg :: "arguments \<Rightarrow> string \<Rightarrow> string \<times> bool" where
  "string_arg args key =
     (case args key of
        Some (JString s) \<Rightarrow> (s, True)
      | _ \<Rightarrow> ([], False))"

datatype call_tool_result = NewToolResultText string

text \<open>
  What an invocation gives back: the two return values of the Go function and the calls
  it made on the way.
\<close>

record outcome =
  tool_result :: call_tool_result
  go_error :: "string option"
  trace :: "event list"

text \<open>
  The destination of the first revision (source lines 44 to 56): the resolved
  \<^verbatim>\<open>destDir\<close> and the flag \<^verbatim>\<open>copyToHomeDir\<close>.
\<close>

definition resolve_dest :: "arguments \<Rightarrow> string \<times> bool" where
  "resolve_dest args =
     (case string_arg args ''dest_dir'' of
        (destDir, ok) \<Rightarrow>
          if \<not> ok \<or> destDir = [] \<or> destDir = ''.'' then (''/app'', True)
          else if \<not> strings_HasPrefix_slash destDir
          then (filepath_Join ''/app'' destDir, False)
          else (destDir, False))"

text \<open>The destination of the second revision (source lines 319 to 328).\<close>

definition resolve_dest2 :: "arguments \<Rightarrow> string \<Rightarrow> string" where
  "resolve_dest2 args localSrcDir =
     (case string_arg args ''dest_dir'' of
        (destDir, ok) \<Rightarrow>
          if \<not> ok \<or> destDir = [] then filepath_Join ''/app'' (filepath_Base localSrcDir)
          else if \<not> strings_HasPrefix_slash destDir
          then filepath_Join ''/app'' destDir
          else destDir)"

text \<open>\<^verbatim>\<open>CopyProject\<close> of the first revision (source lines 20 to 80).\<close>

definition CopyProject :: "world \<Rightarrow> arguments \<Rightarrow> outcome" where
  "CopyProject w args =
     (case string_arg args ''container_id'' of
        (containerID, ok) \<Rightarrow>
          if \<not> ok \<or> containerID = []
          then \<lparr>tool_result = NewToolResultText ''container_id is required'',
                go_error = None, trace = []\<rparr>
          else
            (case string_arg args ''local_src_dir'' of
               (localSrcDir0, ok1) \<Rightarrow>
                 if \<not> ok1 \<or> localSrcDir0 = []
                 then \<lparr>tool_result = NewToolResultText ''local_src_dir is required'',
                       go_error = None, trace = []\<rparr>
                 else
                   let localSrcDir = filepath_Clean localSrcDir0 in
                   (case os_Stat w localSrcDir of
                      Inl err \<Rightarrow>
                        \<lparr>tool_result =
                           NewToolResultText (''Error accessing source directory: '' @ err),
                         go_error = None, trace = [OsStat localSrcDir]\<rparr>
                    | Inr info \<Rightarrow>
                        if \<not> IsDir info
                        then \<lparr>tool_result =
                                NewToolResultText ''local_src_dir must be a directory'',
                              go_error = None, trace = [OsStat localSrcDir]\<rparr>
                        else
                          (case resolve_dest args of
                             (destDir, copyToHomeDir) \<Rightarrow>
                               (case createTarArchive w localSrcDir copyToHomeDir of
                                  Inl err \<Rightarrow>
                                    \<lparr>tool_result =
                                       NewToolResultText (''Error creating tar archive: '' @ err),
                                     go_error = None,
                                     trace = [OsStat localSrcDir, FilepathWalk localSrcDir]\<rparr>
                                | Inr tarBuffer \<Rightarrow>
                                    let targetPath =
                                          (if copyToHomeDir then destDir
                                           else filepath_Dir destDir)
                                    in (case copyToContainer w containerID targetPath tarBuffer of
                                          (Some err, evs) \<Rightarrow>
                                            \<lparr>tool_result =
                                               NewToolResultText
                                                 (''Error copying to container: '' @ err),
                                             go_error = None,
                                             trace = [OsStat localSrcDir,
                                                      FilepathWalk localSrcDir] @ evs\<rparr>
                                        | (None, evs) \<Rightarrow>
                                            \<lparr>tool_result =
                                               NewToolResultText
                                                 (''Successfully copied '' @ localSrcDir
                                                  @ '' to '' @ destDir
                                                  @ '' in container '' @ containerID),
                                             go_error = None,
                                             trace = [OsStat localSrcDir,
                                                      FilepathWalk localSrcDir] @ evs\<rparr>))))))"

text \<open>
  \<^verbatim>\<open>CopyProject\<close> of the second revision (source lines 295 to 345). It returns only if
  \<open>copyToContainer2\<close> does.
\<close>

definition CopyProject2 :: "world \<Rightarrow> arguments \<Rightarrow> outcome option" where
  "CopyProject2 w args =
     (case string_arg args ''container_id'' of
        (containerID, ok) \<Rightarrow>
          if \<not> ok \<or> containerID = []
          then Some \<lparr>tool_result = NewToolResultText ''container_id is required'',
                     go_error = None, trace = []\<rparr>
          else
            (case string_arg args ''local_src_dir'' of
               (localSrcDir0, ok1) \<Rightarrow>
                 if \<not> ok1 \<or> localSrcDir0 = []
                 then Some \<lparr>tool_result = NewToolResultText ''local_src_dir is required'',
                            go_error = None, trace = []\<rparr>
                 else
                   let localSrcDir = filepath_Clean localSrcDir0 in
                   (case os_Stat w localSrcDir of
                      Inl err \<Rightarrow>
                        Some \<lparr>tool_result =
                                NewToolResultText (''Error accessing source directory: '' @ err),
                              go_error = None, trace = [OsStat localSrcDir]\<rparr>
                    | Inr info \<Rightarrow>
                        if \<not> IsDir info
                        then Some \<lparr>tool_result =
                                     NewToolResultText ''local_src_dir must be a directory'',
                                   go_error = None, trace = [OsStat localSrcDir]\<rparr>
                        else
                          let destDir = resolve_dest2 args localSrcDir in
                          (case createTarArchive2 w localSrcDir of
                             Inl err \<Rightarrow>
                               Some \<lparr>tool_result =
                                       NewToolResultText (''Error creating tar archive: '' @ err),
                                     go_error = None,
                                     trace = [OsStat localSrcDir, FilepathWalk localSrcDir]\<rparr>
                           | Inr tarBuffer \<Rightarrow>
                               let parentDir = filepath_Dir destDir in
                               (case copyToContainer2 w containerID parentDir tarBuffer of
                                  None \<Rightarrow> None
                                | Some (Some err, evs) \<Rightarrow>
                                    Some \<lparr>tool_result =
                                            NewToolResultText
                                              (''Error copying to container: '' @ err),
                                          go_error = None,
                                          trace = [OsStat localSrcDir,
                                                   FilepathWalk localSrcDir] @ evs\<rparr>
                                | Some (None, evs) \<Rightarrow>
                                    Some \<lparr>tool_result =
                                            NewToolResultText
                                              (''Successfully copied '' @ localSrcDir
                                               @ '' to '' @ destDir
                                               @ '' in container '' @ containerID),
                                          go_error = None,
                                          trace = [OsStat localSrcDir,
                                                   FilepathWalk localSrcDir] @ evs\<rparr>)))))"

subsection \<open>Source trees and their relative paths\<close>

text \<open>
  A name of a directory entry is not empty, holds no separator and is neither \<^verbatim>\<open>.\<close>
  nor \<^verbatim>\<open>..\<close>; the names of one directory are distinct. Every tree a host file system
  holds is well formed in this sense.
\<close>

definition valid_name :: "string \<Rightarrow> bool" where
  "valid_name n = (n \<noteq> [] \<and> sep \<notin> set n \<and> n \<noteq> ''.'' \<and> n \<noteq> ''..'')"

fun wf_node :: "fs_node \<Rightarrow> bool"
and wf_entries :: "(string \<times> fs_node) list \<Rightarrow> bool"
where
  "wf_node (Directory listable entries) = (distinct (map fst entries) \<and> wf_entries entries)"
| "wf_node (Regular readable content) = True"
| "wf_node (Symlink target) = True"
| "wf_node Fifo = True"
| "wf_node Socket = True"
| "wf_entries [] = True"
| "wf_entries (entry # rest) =
     (valid_name (fst entry) \<and> wf_node (snd entry) \<and> wf_entries rest)"

text \<open>
  A tree can be archived when every directory in it can be listed, every regular file
  can be opened and no entry is a socket.
\<close>

fun archivable :: "fs_node \<Rightarrow> bool"
and archivable_entries :: "(string \<times> fs_node) list \<Rightarrow> bool"
where
  "archivable (Directory listable entries) = (listable \<and> archivable_entries entries)"
| "archivable (Regular readable content) = readable"
| "archivable (Symlink target) = True"
| "archivable Fifo = True"
| "archivable Socket = False"
| "archivable_entries [] = True"
| "archivable_entries (entry # rest) = (archivable (snd entry) \<and> archivable_entries rest)"

text \<open>
  The path of the entry \<open>name\<close> of a directory, relative to the root of the tree; the
  root's own relative path is written \<open>[]\<close> here.
\<close>

definition sub_path :: "string \<Rightarrow> string \<Rightarrow> string" where
  "sub_path p name = (if p = [] then name else p @ sep # name)"

text \<open>
  The entries of a tree with their paths relative to the root, a directory before its
  entries: \<open>listing p node\<close> for the entry \<open>node\<close> at relative path \<open>p\<close>, and
  \<open>entries_below root\<close> for everything under the root, the root itself left out.
\<close>

fun listing :: "string \<Rightarrow> fs_node \<Rightarrow> (string \<times> fs_node) list"
and listing_entries :: "string \<Rightarrow> (string \<times> fs_node) list \<Rightarrow> (string \<times> fs_node) list"
where
  "listing p (Directory listable entries) =
     (p, Directory listable entries) # listing_entries p entries"
| "listing p (Regular readable content) = [(p, Regular readable content)]"
| "listing p (Symlink target) = [(p, Symlink target)]"
| "listing p Fifo = [(p, Fifo)]"
| "listing p Socket = [(p, Socket)]"
| "listing_entries p [] = []"
| "listing_entries p (entry # rest) =
     listing (sub_path p (fst entry)) (snd entry) @ listing_entries p rest"

fun entries_below :: "fs_node \<Rightarrow> (string \<times> fs_node) list" where
  "entries_below (Directory listable entries) = listing_entries [] entries"
| "entries_below node = []"

fun file_bytes :: "fs_node \<Rightarrow> bytes" where
  "file_bytes (Regular readable content) = content"
| "file_bytes node = []"

text \<open>
  The path under which the walk visits the entry with relative path \<open>p\<close>, for a cleaned
  root \<open>r\<close>.
\<close>

definition under :: "string \<Rightarrow> string \<Rightarrow> string" where
  "under r p =
     (if p = [] then r
      else if r = [sep] then sep # p
      else if r = ''.'' then p
      else r @ sep # p)"

text \<open>
  The entry the walk function writes for the entry \<open>node\<close> at relative path \<open>p\<close>, when
  \<open>nm\<close> turns relative paths into header names.
\<close>

fun node_typeflag :: "fs_node \<Rightarrow> typeflag" where
  "node_typeflag (Regular readable content) = TypeReg"
| "node_typeflag (Directory listable entries) = TypeDir"
| "node_typeflag (Symlink target) = TypeSymlink"
| "node_typeflag Fifo = TypeFifo"
| "node_typeflag Socket = TypeFifo"

fun node_linkname :: "string \<Rightarrow> fs_node \<Rightarrow> string" where
  "node_linkname file (Symlink target) = filepath_Base file"
| "node_linkname file node = []"

definition entry_for :: "string \<Rightarrow> (string \<Rightarrow> string) \<Rightarrow> string \<times> fs_node \<Rightarrow> tar_entry" where
  "entry_for r nm pn =
     \<lparr>header = \<lparr>hName = nm (fst pn), hTypeflag = node_typeflag (snd pn),
                 hLinkname = node_linkname (under r (fst pn)) (snd pn),
                 hSize = length (file_bytes (snd pn))\<rparr>,
      data = file_bytes (snd pn)\<rparr>"

text \<open>The header name of the first revision, by mode.\<close>

definition header_name :: "bool \<Rightarrow> string \<Rightarrow> string \<Rightarrow> string" where
  "header_name copyContentsOnly baseDir relPath =
     (if copyContentsOnly then relPath else filepath_Join baseDir relPath)"

text \<open>Cleaned paths, and relative paths made of valid names.\<close>

definition clean_path :: "string \<Rightarrow> bool" where
  "clean_path r =
     (r = ''.'' \<or>
      (\<exists>ns. list_all valid_name ns \<and> r = sep # join_path ns) \<or>
      (\<exists>k ns. list_all valid_name ns \<and> (0 < k \<or> ns \<noteq> [])
         \<and> r = join_path (replicate k ''..'' @ ns)))"

definition rel_path :: "string \<Rightarrow> bool" where
  "rel_path p = (\<exists>ns. list_all valid_name ns \<and> p = join_path ns)"

fun good_stack :: "bool \<Rightarrow> string list \<Rightarrow> bool" where
  "good_stack rooted [] = True"
| "good_stack rooted (e # below) =
     (if e = ''..'' then \<not> rooted \<and> list_all (\<lambda>x. x = ''..'') below
      else valid_name e \<and> good_stack rooted below)"

definition flushed :: "tar_writer \<Rightarrow> bool" where
  "flushed tw = (tw = [] \<or> hSize (header (last tw)) \<le> length (data (last tw)))"

subsection \<open>Example worlds\<close>

definition example_tree :: fs_node where
  "example_tree =
     Directory True
       [(''a.txt'', Regular True [104, 105]),
        (''sub'', Directory True [(''b.txt'', Regular True [1, 2, 3])])]"

definition example_world :: world where
  "example_world =
     \<lparr>os_Stat = (\<lambda>p. if p = ''proj'' then Inr example_tree
                      else if p = ''..'' then Inr (Directory True [])
                      else if p = ''notes.txt'' then Inr (Regular True [])
                      else Inl (''stat '' @ p @ '': no such file or directory'')),
      os_Lstat = (\<lambda>p. if p = ''proj'' then Inr example_tree
                       else if p = ''..'' then Inr (Directory True [])
                       else if p = ''notes.txt'' then Inr (Regular True [])
                       else Inl (''lstat '' @ p @ '': no such file or directory'')),
      docker_NewClient = None,
      docker_ContainerInspect = (\<lambda>c. None),
      docker_CopyToContainer = (\<lambda>c d a. None),
      docker_ContainerExecCreate = (\<lambda>c cmd. Inr ''exec1''),
      docker_ContainerExecAttach = (\<lambda>e. Inr (\<lambda>k. ''sh: boom'')),
      docker_ContainerExecInspect = (\<lambda>e k. Inr (k < 2, 0))\<rparr>"

text \<open>A world whose exec sessions are reported running for ever.\<close>

definition hung_world :: world where
  "hung_world = example_world\<lparr>docker_ContainerExecInspect := (\<lambda>e k. Inr (True, 0))\<rparr>"

text \<open>A world whose commands run for two polling rounds and exit with code 3.\<close>

definition failing_world :: world where
  "failing_world = example_world\<lparr>docker_ContainerExecInspect := (\<lambda>e k. Inr (k < 2, 3))\<rparr>"

definition example_args :: arguments where
  "example_args =
     [''container_id'' \<mapsto> JString ''c1'', ''local_src_dir'' \<mapsto> JString ''proj'']"

section \<open>Properties\<close>

subsection \<open>The polling loop\<close>

lemma poll_exec_running:
  "inspect k = Inr (True, c) \<Longrightarrow>
   poll_exec inspect stdout stderr k = poll_exec inspect stdout stderr (Suc k)"
  by (subst poll_exec.simps) simp

lemma poll_exec_skip:
  "(\<And>j. j < n \<Longrightarrow> \<exists>c. inspect (k + j) = Inr (True, c)) \<Longrightarrow>
   poll_exec inspect stdout stderr k = poll_exec inspect stdout stderr (k + n)"
proof (induction n arbitrary: k)
  case 0
  then show ?case by simp
next
  case (Suc n)
  from Suc.prems[of 0] obtain c where "inspect k = Inr (True, c)" by auto
  then have "poll_exec inspect stdout stderr k = poll_exec inspect stdout stderr (Suc k)"
    by (rule poll_exec_running)
  also have "\<dots> = poll_exec inspect stdout stderr (Suc k + n)"
  proof (rule Suc.IH)
    fix j assume "j < n"
    then have "Suc j < Suc n" by simp
    from Suc.prems[OF this] show "\<exists>c. inspect (Suc k + j) = Inr (True, c)" by simp
  qed
  finally show ?case by simp
qed

lemma poll_exec_stopped:
  "inspect k = Inr (False, exitCode) \<Longrightarrow>
   poll_exec inspect stdout stderr k =
     Some (if exitCode \<noteq> 0
           then Some (''command exited with code '' @ show_int exitCode @ '': ''
                      @ (if stderr \<noteq> [] then stderr else stdout k))
           else None)"
  by (subst poll_exec.simps) simp

lemma poll_exec_inspect_error:
  "inspect k = Inl err \<Longrightarrow>
   poll_exec inspect stdout stderr k = Some (Some (''failed to inspect exec: '' @ err))"
  by (subst poll_exec.simps) simp

lemma poll_exec_forever:
  assumes "\<And>j. \<exists>c. inspect j = Inr (True, c)"
  shows "poll_exec inspect stdout stderr k = None"
proof (rule ccontr)
  assume "poll_exec inspect stdout stderr k \<noteq> None"
  then obtain r where r: "poll_exec inspect stdout stderr k = Some r" by auto
  have "\<not> (\<forall>j. \<exists>c. inspect j = Inr (True, c))"
  proof (rule poll_exec.raw_induct
      [where P = "\<lambda>inspect stdout stderr k r. \<not> (\<forall>j. \<exists>c. inspect j = Inr (True, c))", OF _ r])
    fix pe and insp :: "nat \<Rightarrow> string + bool \<times> int" and out :: "nat \<Rightarrow> string"
      and err :: string and i :: nat and res :: "string option"
    assume IH: "\<And>a b c d y. pe a b c d = Some y \<Longrightarrow> \<not> (\<forall>j. \<exists>c. a j = Inr (True, c))"
      and body: "(case insp i of
        Inl e \<Rightarrow> Some (Some (''failed to inspect exec: '' @ e))
      | Inr (running, exitCode) \<Rightarrow>
          if \<not> running then
            (if exitCode \<noteq> 0 then
               (let errMsg = (if err = [] then out i else err)
                in Some (Some (''command exited with code '' @ show_int exitCode
                               @ '': '' @ errMsg)))
             else Some None)
          else pe insp out err (Suc i)) = Some res"
    show "\<not> (\<forall>j. \<exists>c. insp j = Inr (True, c))"
    proof
      assume all: "\<forall>j. \<exists>c. insp j = Inr (True, c)"
      then obtain c where "insp i = Inr (True, c)" by blast
      with body have "pe insp out err (Suc i) = Some res" by simp
      from IH[OF this] all show False by blast
    qed
  qed
  with assms show False by blast
qed


lemma poll_exec_ends:
  assumes run: "\<forall>j<k. \<exists>c. inspect j = Inr (True, c)"
    and stop: "inspect k = Inr (False, exitCode)"
  shows "poll_exec inspect stdout stderr 0 =
     Some (if exitCode \<noteq> 0
           then Some (''command exited with code '' @ show_int exitCode @ '': ''
                      @ (if stderr \<noteq> [] then stderr else stdout k))
           else None)"
proof -
  have "poll_exec inspect stdout stderr 0 = poll_exec inspect stdout stderr (0 + k)"
    by (rule poll_exec_skip) (use run in simp)
  then show ?thesis
    using poll_exec_stopped[where inspect = inspect and k = k and exitCode = exitCode
        and stdout = stdout and stderr = stderr] stop
    by simp
qed

text \<open>
  Claim C7. When the exec session is reported running in the rounds before \<open>k\<close> and
  not running in round \<open>k\<close>, the polling loop returns: with a non-zero exit code, the
  error \<^verbatim>\<open>command exited with code N: output\<close>, where the output is the \<^verbatim>\<open>stderr\<close>
  buffer if that is not empty and else the \<^verbatim>\<open>stdout\<close> buffer as read in that round;
  with exit code zero, no error. \<^verbatim>\<open>executeCommand\<close> returns what the loop returns
  once the client, the exec session and the attachment exist.
\<close>

theorem executeCommand_exit_status:
  assumes "\<forall>j<k. \<exists>c. inspect j = Inr (True, c)"
    and "inspect k = Inr (False, exitCode)"
  shows "poll_exec inspect stdout stderr 0 =
           Some (if exitCode \<noteq> 0
                 then Some (''command exited with code '' @ show_int exitCode @ '': ''
                            @ (if stderr \<noteq> [] then stderr else stdout k))
                 else None)
         \<and> (docker_NewClient w = None
              \<and> docker_ContainerExecCreate w containerID cmd = Inr execID
              \<and> docker_ContainerExecAttach w execID = Inr stdout
              \<and> docker_ContainerExecInspect w execID = inspect
            \<longrightarrow> map_option fst (executeCommand w containerID cmd)
                  = poll_exec inspect stdout [] 0)"
  using poll_exec_ends[where inspect = inspect and k = k and exitCode = exitCode] assms
  by (auto simp: executeCommand_def split: option.splits)

theorem executeCommand_exit_status_witness:
  "poll_exec (\<lambda>k. Inr (k < 2, 3)) (\<lambda>k. ''out'') ''err'' 0
     = Some (Some ''command exited with code 3: err'')
   \<and> poll_exec (\<lambda>k. Inr (k < 2, 3)) (\<lambda>k. ''out'') [] 0
     = Some (Some ''command exited with code 3: out'')
   \<and> poll_exec (\<lambda>k. Inr (k < 2, 0)) (\<lambda>k. ''out'') ''err'' 0 = Some None
   \<and> map_option fst (executeCommand failing_world ''c1'' [''sh'', ''-c'', ''exit 3''])
     = Some (Some ''command exited with code 3: sh: boom'')"
proof -
  note t1 = executeCommand_exit_status[where inspect = "\<lambda>k. Inr (k < 2, 3)" and k = 2
      and exitCode = 3 and stdout = "\<lambda>k. ''out''" and stderr = "''err''"]
  note t2 = executeCommand_exit_status[where inspect = "\<lambda>k. Inr (k < 2, 3)" and k = 2
      and exitCode = 3 and stdout = "\<lambda>k. ''out''" and stderr = "[]"]
  note t3 = executeCommand_exit_status[where inspect = "\<lambda>k. Inr (k < 2, 0)" and k = 2
      and exitCode = 0 and stdout = "\<lambda>k. ''out''" and stderr = "''err''"]
  note t4 = executeCommand_exit_status[where inspect = "\<lambda>k. Inr (k < 2, 3)" and k = 2
      and exitCode = 3 and stdout = "\<lambda>k. ''sh: boom''" and stderr = "[]"
      and w = failing_world and containerID = "''c1''"
      and cmd = "[''sh'', ''-c'', ''exit 3'']" and execID = "''exec1''"]
  show ?thesis
    using t1 t2 t3 t4
    by (simp add: show_int_def failing_world_def example_world_def)
qed

text \<open>
  Claim C10. \<^verbatim>\<open>executeCommand\<close> hands the loop the \<^verbatim>\<open>stdout\<close> buffer the
  background copy fills and a \<^verbatim>\<open>stderr\<close> buffer nothing writes: for every failing
  command the output in the error is the content of the \<^verbatim>\<open>stdout\<close> buffer.
\<close>

theorem executeCommand_output_is_stdout:
  assumes "docker_NewClient w = None"
    and "docker_ContainerExecCreate w containerID cmd = Inr execID"
    and "docker_ContainerExecAttach w execID = Inr stdout"
    and "\<forall>j<k. \<exists>c. docker_ContainerExecInspect w execID j = Inr (True, c)"
    and "docker_ContainerExecInspect w execID k = Inr (False, exitCode)"
    and "exitCode \<noteq> 0"
  shows "executeCommand w containerID cmd =
           Some (Some (''command exited with code '' @ show_int exitCode @ '': '' @ stdout k),
                 [DockerNewClient, DockerContainerExecCreate containerID cmd,
                  DockerContainerExecAttach execID])"
  using poll_exec_ends[where inspect = "docker_ContainerExecInspect w execID" and k = k
      and exitCode = exitCode and stdout = stdout and stderr = "[]"] assms
  by (simp add: executeCommand_def)

theorem executeCommand_output_is_stdout_witness:
  "executeCommand failing_world ''c1'' [''sh'', ''-c'', ''ls /nowhere'']
     = Some (Some ''command exited with code 3: sh: boom'',
             [DockerNewClient, DockerContainerExecCreate ''c1'' [''sh'', ''-c'', ''ls /nowhere''],
              DockerContainerExecAttach ''exec1''])"
  using executeCommand_output_is_stdout[where w = failing_world and containerID = "''c1''"
      and cmd = "[''sh'', ''-c'', ''ls /nowhere'']" and execID = "''exec1''"
      and stdout = "\<lambda>k. ''sh: boom''" and k = 2 and exitCode = 3]
  by (simp add: show_int_def failing_world_def example_world_def)

text \<open>
  Claim C5. When \<^verbatim>\<open>container_id\<close> is missing, not a string or the empty string, both
  revisions of \<^verbatim>\<open>CopyProject\<close> return the text \<^verbatim>\<open>container_id is required\<close> at
  once: the trace is empty, so there was no \<^verbatim>\<open>Stat\<close>, no walk of the file system and
  no archive.
\<close>

theorem CopyProject_container_id_required:
  assumes "args ''container_id'' = None
           \<or> (\<exists>v. args ''container_id'' = Some v \<and> (\<forall>s. v \<noteq> JString s))
           \<or> args ''container_id'' = Some (JString [])"
  shows "CopyProject w args =
           \<lparr>tool_result = NewToolResultText ''container_id is required'',
            go_error = None, trace = []\<rparr>
         \<and> CopyProject2 w args =
           Some \<lparr>tool_result = NewToolResultText ''container_id is required'',
                 go_error = None, trace = []\<rparr>"
  using assms
  by (auto simp: CopyProject_def CopyProject2_def string_arg_def
      split: option.splits json_value.splits)

theorem CopyProject_container_id_required_witness:
  "CopyProject example_world [''local_src_dir'' \<mapsto> JString ''proj''] =
     \<lparr>tool_result = NewToolResultText ''container_id is required'',
      go_error = None, trace = []\<rparr>
   \<and> CopyProject2 example_world [''container_id'' \<mapsto> JNumber 7, ''local_src_dir'' \<mapsto> JString ''proj''] =
     Some \<lparr>tool_result = NewToolResultText ''container_id is required'',
           go_error = None, trace = []\<rparr>
   \<and> CopyProject example_world [''container_id'' \<mapsto> JString [], ''local_src_dir'' \<mapsto> JString ''proj''] =
     \<lparr>tool_result = NewToolResultText ''container_id is required'',
      go_error = None, trace = []\<rparr>"
  using CopyProject_container_id_required[where w = example_world
      and args = "[''local_src_dir'' \<mapsto> JString ''proj'']"]
    CopyProject_container_id_required[where w = example_world
      and args = "[''container_id'' \<mapsto> JNumber 7, ''local_src_dir'' \<mapsto> JString ''proj'']"]
    CopyProject_container_id_required[where w = example_world
      and args = "[''container_id'' \<mapsto> JString [], ''local_src_dir'' \<mapsto> JString ''proj'']"]
  by simp

text \<open>
  Claim C6. When \<^verbatim>\<open>local_src_dir\<close> does not exist (\<^verbatim>\<open>os.Stat\<close> fails) or is not a
  directory, no call to the container runtime is made, in either revision; with a
  usable \<^verbatim>\<open>container_id\<close> the result is the text that reports the source
  (\<^verbatim>\<open>Error accessing source directory: ...\<close> or
  \<^verbatim>\<open>local_src_dir must be a directory\<close>) and the only call made is the \<^verbatim>\<open>Stat\<close>.
\<close>

theorem CopyProject_source_not_directory:
  assumes "args ''local_src_dir'' = Some (JString src)"
    and "os_Stat w (filepath_Clean src) = Inl err
         \<or> (\<exists>node. os_Stat w (filepath_Clean src) = Inr node \<and> \<not> IsDir node)"
  shows "list_all (\<lambda>ev. \<not> is_docker_event ev) (trace (CopyProject w args))
         \<and> CopyProject2 w args = Some (CopyProject w args)
         \<and> ((\<exists>cid. args ''container_id'' = Some (JString cid) \<and> cid \<noteq> []) \<and> src \<noteq> []
              \<longrightarrow> CopyProject w args =
                    \<lparr>tool_result = NewToolResultText
                       (case os_Stat w (filepath_Clean src) of
                          Inl e \<Rightarrow> ''Error accessing source directory: '' @ e
                        | Inr node \<Rightarrow> ''local_src_dir must be a directory''),
                     go_error = None, trace = [OsStat (filepath_Clean src)]\<rparr>)"
  using assms
  by (auto simp: CopyProject_def CopyProject2_def string_arg_def Let_def
      split: option.splits json_value.splits)

theorem CopyProject_source_not_directory_witness:
  "CopyProject example_world (example_args(''local_src_dir'' \<mapsto> JString ''missing/'')) =
     \<lparr>tool_result = NewToolResultText
        ''Error accessing source directory: stat missing: no such file or directory'',
      go_error = None, trace = [OsStat ''missing'']\<rparr>
   \<and> CopyProject example_world (example_args(''local_src_dir'' \<mapsto> JString ''./notes.txt'')) =
     \<lparr>tool_result = NewToolResultText ''local_src_dir must be a directory'',
      go_error = None, trace = [OsStat ''notes.txt'']\<rparr>
   \<and> CopyProject2 example_world (example_args(''local_src_dir'' \<mapsto> JString ''./notes.txt'')) =
     Some \<lparr>tool_result = NewToolResultText ''local_src_dir must be a directory'',
      go_error = None, trace = [OsStat ''notes.txt'']\<rparr>"
proof -
  have c1: "filepath_Clean ''missing/'' = ''missing''"
    by (simp add: filepath_Clean_def sep_def)
  have c2: "filepath_Clean ''./notes.txt'' = ''notes.txt''"
    by (simp add: filepath_Clean_def sep_def)
  show ?thesis
    using CopyProject_source_not_directory[where w = example_world
        and args = "example_args(''local_src_dir'' \<mapsto> JString ''missing/'')"
        and src = "''missing/''"
        and err = "''stat missing: no such file or directory''"]
      CopyProject_source_not_directory[where w = example_world
        and args = "example_args(''local_src_dir'' \<mapsto> JString ''./notes.txt'')"
        and src = "''./notes.txt''"]
    by (simp add: c1 c2 example_world_def example_args_def)
qed

text \<open>
  Claim C9. In the first revision a \<^verbatim>\<open>dest_dir\<close> of \<^verbatim>\<open>.\<close> is the same as no
  \<^verbatim>\<open>dest_dir\<close>: the destination is \<^verbatim>\<open>/app\<close>, the contents-only flag is set, and
  the whole invocation has the same outcome.
\<close>

theorem CopyProject_dest_dot_is_default:
  "resolve_dest (args(''dest_dir'' \<mapsto> JString ''.'')) = (''/app'', True)
   \<and> resolve_dest (args(''dest_dir'' := None)) = (''/app'', True)
   \<and> CopyProject w (args(''dest_dir'' \<mapsto> JString ''.''))
     = CopyProject w (args(''dest_dir'' := None))"
proof -
  let ?dot = "args(''dest_dir'' \<mapsto> JString ''.'')"
  let ?none = "args(''dest_dir'' := None)"
  have cid: "string_arg ?dot ''container_id'' = string_arg ?none ''container_id''"
    by (simp add: string_arg_def)
  have src: "string_arg ?dot ''local_src_dir'' = string_arg ?none ''local_src_dir''"
    by (simp add: string_arg_def)
  have dot: "resolve_dest ?dot = (''/app'', True)"
    by (simp add: resolve_dest_def string_arg_def)
  have none: "resolve_dest ?none = (''/app'', True)"
    by (simp add: resolve_dest_def string_arg_def)
  have "CopyProject w ?dot = CopyProject w ?none"
    unfolding CopyProject_def cid src dot none ..
  with dot none show ?thesis by simp
qed

theorem CopyProject_dest_dot_is_default_witness:
  "resolve_dest (example_args(''dest_dir'' \<mapsto> JString ''.'')) = (''/app'', True)
   \<and> resolve_dest (example_args(''dest_dir'' \<mapsto> JString ''x'')) = (''/app/x'', False)
   \<and> CopyProject example_world (example_args(''dest_dir'' \<mapsto> JString ''.''))
     = CopyProject example_world example_args"
proof -
  have "example_args(''dest_dir'' := None) = example_args"
    by (rule ext) (simp add: example_args_def)
  moreover have "resolve_dest (example_args(''dest_dir'' \<mapsto> JString ''x'')) = (''/app/x'', False)"
    by (simp add: resolve_dest_def string_arg_def strings_HasPrefix_slash_def
        filepath_Join_def filepath_Clean_def sep_def)
  ultimately show ?thesis
    using CopyProject_dest_dot_is_default[where w = example_world and args = example_args]
    by simp
qed

subsection \<open>What \<^verbatim>\<open>CopyProject\<close> returns\<close>

lemma poll_exec_returns:
  assumes "\<exists>k. \<forall>c. inspect k \<noteq> Inr (True, c)"
  shows "\<exists>r. poll_exec inspect stdout stderr 0 = Some r"
proof -
  define k where "k = (LEAST k. \<forall>c. inspect k \<noteq> Inr (True, c))"
  have stop: "\<forall>c. inspect k \<noteq> Inr (True, c)"
    unfolding k_def using assms by (rule LeastI_ex)
  have run: "\<exists>c. inspect (0 + j) = Inr (True, c)" if "j < k" for j
    using not_less_Least[of j "\<lambda>k. \<forall>c. inspect k \<noteq> Inr (True, c)"] that
    unfolding k_def by auto
  have skip: "poll_exec inspect stdout stderr 0 = poll_exec inspect stdout stderr (0 + k)"
    by (rule poll_exec_skip) (rule run)
  show ?thesis
  proof (cases "inspect k")
    case (Inl err)
    with skip poll_exec_inspect_error[of inspect k err stdout stderr] show ?thesis by simp
  next
    case (Inr rc)
    obtain running exitCode where rc: "rc = (running, exitCode)" by (cases rc)
    with Inr stop have "inspect k = Inr (False, exitCode)" by auto
    with skip poll_exec_stopped[where inspect = inspect and k = k and exitCode = exitCode
        and stdout = stdout and stderr = stderr]
    show ?thesis by simp
  qed
qed

lemma executeCommand_returns:
  assumes "\<forall>execID. \<exists>k. \<forall>c. docker_ContainerExecInspect w execID k \<noteq> Inr (True, c)"
  shows "\<exists>r. executeCommand w containerID cmd = Some r"
proof -
  have "\<exists>r. poll_exec (docker_ContainerExecInspect w execID) stdout [] 0 = Some r"
    for execID stdout
    by (rule poll_exec_returns) (use assms in blast)
  then show ?thesis
    unfolding executeCommand_def
    by (auto split: option.splits sum.splits) (metis option.distinct(1))
qed

lemma copyToContainer2_returns:
  assumes "\<forall>execID. \<exists>k. \<forall>c. docker_ContainerExecInspect w execID k \<noteq> Inr (True, c)"
  shows "\<exists>r. copyToContainer2 w containerID destPath tarArchive = Some r"
  using executeCommand_returns[OF assms, of containerID "[''mkdir'', ''-p'', destPath]"]
  unfolding copyToContainer2_def
  by (auto split: option.splits sum.splits)

lemma executeCommand_hung:
  assumes "docker_NewClient w = None"
    and "docker_ContainerExecCreate w containerID cmd = Inr execID"
    and "docker_ContainerExecAttach w execID = Inr stdout"
    and "\<And>j. \<exists>c. docker_ContainerExecInspect w execID j = Inr (True, c)"
  shows "executeCommand w containerID cmd = None"
  using poll_exec_forever[of "docker_ContainerExecInspect w execID" stdout "[]" 0] assms
  by (simp add: executeCommand_def)

text \<open>
  Claim C8, amended. Every return of \<^verbatim>\<open>CopyProject\<close> carries a text result and a
  \<^verbatim>\<open>nil\<close> error, in success and in every failure. The first revision always returns.
  The second revision returns whenever the polling of its \<^verbatim>\<open>mkdir\<close> command ends
  (every exec session at some round reports an error or not running). When all stages
  succeed the text names the cleaned source path, the resolved destination and the
  container.
\<close>

theorem CopyProject_never_returns_error:
  "go_error (CopyProject w args) = None
   \<and> (\<forall>r. CopyProject2 w args = Some r \<longrightarrow> go_error r = None)
   \<and> ((\<forall>execID. \<exists>k. \<forall>c. docker_ContainerExecInspect w execID k \<noteq> Inr (True, c))
        \<longrightarrow> (\<exists>r. CopyProject2 w args = Some r))
   \<and> (args ''container_id'' = Some (JString containerID) \<and> containerID \<noteq> []
        \<and> args ''local_src_dir'' = Some (JString src) \<and> src \<noteq> []
        \<and> os_Stat w (filepath_Clean src) = Inr info \<and> IsDir info
      \<longrightarrow>
        (resolve_dest args = (destDir, copyToHomeDir)
         \<and> createTarArchive w (filepath_Clean src) copyToHomeDir = Inr tarBuffer
         \<and> copyToContainer w containerID
              (if copyToHomeDir then destDir else filepath_Dir destDir) tarBuffer = (None, evs)
         \<longrightarrow> tool_result (CopyProject w args) =
               NewToolResultText (''Successfully copied '' @ filepath_Clean src @ '' to ''
                                  @ destDir @ '' in container '' @ containerID))
        \<and> (createTarArchive2 w (filepath_Clean src) = Inr tarBuffer_b
            \<and> copyToContainer2 w containerID
                 (filepath_Dir (resolve_dest2 args (filepath_Clean src))) tarBuffer_b
               = Some (None, evs_b)
            \<longrightarrow> CopyProject2 w args =
                  Some \<lparr>tool_result =
                          NewToolResultText (''Successfully copied '' @ filepath_Clean src
                            @ '' to '' @ resolve_dest2 args (filepath_Clean src)
                            @ '' in container '' @ containerID),
                        go_error = None,
                        trace = [OsStat (filepath_Clean src), FilepathWalk (filepath_Clean src)]
                                @ evs_b\<rparr>))"
proof (intro conjI)
  show "go_error (CopyProject w args) = None"
    by (simp add: CopyProject_def Let_def split: prod.splits sum.splits option.splits)
  show "\<forall>r. CopyProject2 w args = Some r \<longrightarrow> go_error r = None"
    by (auto simp: CopyProject2_def Let_def split: prod.splits sum.splits option.splits if_splits)
  show "(\<forall>execID. \<exists>k. \<forall>c. docker_ContainerExecInspect w execID k \<noteq> Inr (True, c))
        \<longrightarrow> (\<exists>r. CopyProject2 w args = Some r)"
  proof
    assume a: "\<forall>execID. \<exists>k. \<forall>c. docker_ContainerExecInspect w execID k \<noteq> Inr (True, c)"
    have "\<exists>r. copyToContainer2 w c d t = Some r" for c d t
      by (rule copyToContainer2_returns[OF a])
    then show "\<exists>r. CopyProject2 w args = Some r"
      unfolding CopyProject2_def Let_def
      by (auto split: prod.splits sum.splits option.splits) (metis option.distinct(1))
  qed
  show "args ''container_id'' = Some (JString containerID) \<and> containerID \<noteq> []
        \<and> args ''local_src_dir'' = Some (JString src) \<and> src \<noteq> []
        \<and> os_Stat w (filepath_Clean src) = Inr info \<and> IsDir info
      \<longrightarrow>
        (resolve_dest args = (destDir, copyToHomeDir)
         \<and> createTarArchive w (filepath_Clean src) copyToHomeDir = Inr tarBuffer
         \<and> copyToContainer w containerID
              (if copyToHomeDir then destDir else filepath_Dir destDir) tarBuffer = (None, evs)
         \<longrightarrow> tool_result (CopyProject w args) =
               NewToolResultText (''Successfully copied '' @ filepath_Clean src @ '' to ''
                                  @ destDir @ '' in container '' @ containerID))
        \<and> (createTarArchive2 w (filepath_Clean src) = Inr tarBuffer_b
            \<and> copyToContainer2 w containerID
                 (filepath_Dir (resolve_dest2 args (filepath_Clean src))) tarBuffer_b
               = Some (None, evs_b)
            \<longrightarrow> CopyProject2 w args =
                  Some \<lparr>tool_result =
                          NewToolResultText (''Successfully copied '' @ filepath_Clean src
                            @ '' to '' @ resolve_dest2 args (filepath_Clean src)
                            @ '' in container '' @ containerID),
                        go_error = None,
                        trace = [OsStat (filepath_Clean src), FilepathWalk (filepath_Clean src)]
                                @ evs_b\<rparr>)"
    by (simp add: CopyProject_def CopyProject2_def string_arg_def Let_def)
qed

text \<open>
  The claim as stated, that every invocation returns, fails for the second revision: in
  a world that reports the \<^verbatim>\<open>mkdir\<close> exec session running for ever the loop of
  \<^verbatim>\<open>executeCommand\<close> never ends, and \<^verbatim>\<open>CopyProject\<close> never returns.
\<close>

theorem CopyProject2_hangs_counterexample:
  "\<not> (\<exists>r. CopyProject2 hung_world example_args = Some r)"
proof -
  have h: "executeCommand hung_world ''c1'' [''mkdir'', ''-p'', ''/app''] = None"
    by (rule executeCommand_hung[where execID = "''exec1''" and stdout = "\<lambda>k. ''sh: boom''"])
      (simp_all add: hung_world_def example_world_def)
  have st: "os_Stat hung_world ''proj'' = Inr example_tree"
    by (simp add: hung_world_def example_world_def)
  have dir: "IsDir example_tree"
    by (simp add: example_tree_def)
  have nc: "docker_NewClient hung_world = None"
    and ci: "docker_ContainerInspect hung_world ''c1'' = None"
    by (simp_all add: hung_world_def example_world_def)
  have "\<not> isl (createTarArchive2 hung_world ''proj'')"
    by code_simp
  then obtain tarBuffer where arch: "createTarArchive2 hung_world ''proj'' = Inr tarBuffer"
    by (cases "createTarArchive2 hung_world ''proj''") simp_all
  have c: "filepath_Clean ''proj'' = ''proj''"
    by code_simp
  have d: "filepath_Dir (resolve_dest2 example_args ''proj'') = ''/app''"
    by code_simp
  have "copyToContainer2 hung_world ''c1'' ''/app'' tarBuffer = None"
    by (simp add: copyToContainer2_def nc ci h)
  moreover have "string_arg example_args ''container_id'' = (''c1'', True)"
    and "string_arg example_args ''local_src_dir'' = (''proj'', True)"
    by (simp_all add: string_arg_def example_args_def)
  ultimately have "CopyProject2 hung_world example_args = None"
    by (simp add: CopyProject2_def c st dir arch d)
  then show ?thesis by simp
qed

theorem CopyProject_never_returns_error_witness:
  "go_error (CopyProject example_world example_args) = None
   \<and> tool_result (CopyProject example_world example_args)
     = NewToolResultText ''Successfully copied proj to /app in container c1''
   \<and> (\<exists>r. CopyProject2 example_world example_args = Some r \<and> go_error r = None)"
proof -
  have ends: "\<forall>execID. \<exists>k. \<forall>c. docker_ContainerExecInspect example_world execID k \<noteq> Inr (True, c)"
  proof
    fix execID
    have "\<forall>c. docker_ContainerExecInspect example_world execID 2 \<noteq> Inr (True, c)"
      by (simp add: example_world_def)
    then show "\<exists>k. \<forall>c. docker_ContainerExecInspect example_world execID k \<noteq> Inr (True, c)" ..
  qed
  have c: "filepath_Clean ''proj'' = ''proj''"
    by code_simp
  have r: "resolve_dest example_args = (''/app'', True)"
    by code_simp
  have l1: "example_args ''container_id'' = Some (JString ''c1'')"
    and l2: "example_args ''local_src_dir'' = Some (JString ''proj'')"
    by (simp_all add: example_args_def)
  have st: "os_Stat example_world ''proj'' = Inr example_tree"
    by (simp add: example_world_def)
  have dir: "IsDir example_tree"
    by (simp add: example_tree_def)
  have "\<not> isl (createTarArchive example_world ''proj'' True)"
    by code_simp
  then obtain tarBuffer where arch: "createTarArchive example_world ''proj'' True = Inr tarBuffer"
    by (cases "createTarArchive example_world ''proj'' True") simp_all
  have cp: "copyToContainer example_world ''c1'' ''/app'' tarBuffer =
      (None, [DockerNewClient, DockerContainerInspect ''c1'',
              DockerCopyToContainer ''c1'' ''/app'' tarBuffer])"
    by (simp add: copyToContainer_def example_world_def)
  show ?thesis
    using CopyProject_never_returns_error[where w = example_world and args = example_args
        and containerID = "''c1''" and src = "''proj''" and info = example_tree
        and destDir = "''/app''" and copyToHomeDir = True and tarBuffer = tarBuffer
        and evs = "[DockerNewClient, DockerContainerInspect ''c1'',
              DockerCopyToContainer ''c1'' ''/app'' tarBuffer]"
        and tarBuffer_b = "[]" and evs_b = "[]"] ends l1 l2
    by (auto simp: c r st dir arch cp)
qed

end
